theory Spec2Isabelle
  imports Main "HOL-Library.AList" "HOL-Library.Multiset"
begin

section \<open>JSON values as the handlers see them\<close>

text \<open>
  The server in \<^verbatim>\<open>src/server/index.tsx\<close> is untyped JavaScript: request bodies and
  stored records are JSON values, and every check of the handlers is a truthiness test
  (\<^verbatim>\<open>!title\<close>, \<^verbatim>\<open>imageUrl || null\<close>, \<^verbatim>\<open>r.value || r\<close>). The model keeps that. An
  object is its property list in insertion order; a property that is absent
  (\<^verbatim>\<open>undefined\<close>) is \<open>None\<close>. JSON numbers are integers here: the handlers only test a
  number for being zero and subtract timestamps, which are whole milliseconds.
\<close>

datatype json =
    JNull
  | JBool bool
  | JNum int
  | JStr string
  | JArr "json list"
  | JObj "(string \<times> json) list"

type_synonym obj = "(string \<times> json) list"

text \<open>JavaScript truthiness: \<^verbatim>\<open>null\<close>, \<^verbatim>\<open>false\<close>, \<^verbatim>\<open>0\<close> and \<^verbatim>\<open>""\<close> are falsy,
  every array and object is truthy, \<^verbatim>\<open>undefined\<close> is falsy.\<close>

fun truthy :: "json \<Rightarrow> bool" where
  "truthy JNull = False"
| "truthy (JBool b) = b"
| "truthy (JNum n) = (n \<noteq> 0)"
| "truthy (JStr s) = (s \<noteq> [])"
| "truthy (JArr xs) = True"
| "truthy (JObj ps) = True"

fun truthy_opt :: "json option \<Rightarrow> bool" where
  "truthy_opt None = False"
| "truthy_opt (Some v) = truthy v"

text \<open>Reading a named property (\<^verbatim>\<open>body.title\<close>, or a destructuring
  \<^verbatim>\<open>const { title } = body\<close>): an object gives the property or \<^verbatim>\<open>undefined\<close>; a
  number, boolean, string or array has none of the names the handlers read. Reading a
  property of \<^verbatim>\<open>null\<close> throws, which the callers model before they come here.\<close>

fun get_prop :: "string \<Rightarrow> json \<Rightarrow> json option" where
  "get_prop k (JObj ps) = map_of ps k"
| "get_prop k v = None"

text \<open>\<^verbatim>\<open>Number.prototype.toString()\<close> on a non-negative whole number: its decimal
  digits.\<close>

fun toString :: "nat \<Rightarrow> string" where
  "toString n =
     (if n < 10 then [char_of (48 + n)]
      else toString (n div 10) @ [char_of (48 + n mod 10)])"

declare toString.simps [simp del]

section \<open>The world outside the handlers\<close>

text \<open>
  \<^verbatim>\<open>kv_store.tsx\<close> (imported as \<^verbatim>\<open>kv\<close>) is not among the sources, and the identity
  provider and the blob store are services. The state the handlers act on is the content
  of the key-value store, the sequence of accesses made to it, and the sequence of
  uploads sent to the blob store. Substrate failures are not modelled: each \<^verbatim>\<open>kv\<close> call
  returns.
\<close>

datatype kv_op = KvGet string | KvSet string | KvDel string | KvScan string

record upload =
  up_bucket :: string
  up_name :: string
  up_size :: nat
  up_contentType :: string

record world =
  kv :: "(string \<times> obj) list"
  kv_log :: "kv_op list"
  scan_wrapped :: bool
  blobs :: "upload list"

text \<open>Modelled from the spec: the key-value adapter \<^verbatim>\<open>kv_store.tsx\<close> (section 4.1),
  \<^verbatim>\<open>get(key) -> value|absent\<close>.\<close>

definition kv_get :: "string \<Rightarrow> world \<Rightarrow> obj option \<times> world" where
  "kv_get k w = (map_of (kv w) k, w\<lparr>kv_log := kv_log w @ [KvGet k]\<rparr>)"

text \<open>Modelled from the spec: the key-value adapter \<^verbatim>\<open>kv_store.tsx\<close> (section 4.1),
  \<^verbatim>\<open>set(key, value) -> success\<close>. An existing key keeps its place in the scan
  order, a new key goes last.\<close>

definition kv_set :: "string \<Rightarrow> obj \<Rightarrow> world \<Rightarrow> world" where
  "kv_set k v w = w\<lparr>kv := AList.update k v (kv w), kv_log := kv_log w @ [KvSet k]\<rparr>"

text \<open>Modelled from the spec: the key-value adapter \<^verbatim>\<open>kv_store.tsx\<close> (section 4.1),
  \<^verbatim>\<open>delete(key) -> success-even-if-absent\<close>.\<close>

definition kv_del :: "string \<Rightarrow> world \<Rightarrow> world" where
  "kv_del k w = w\<lparr>kv := AList.delete k (kv w), kv_log := kv_log w @ [KvDel k]\<rparr>"

text \<open>Modelled from the spec: the key-value adapter \<^verbatim>\<open>kv_store.tsx\<close> (section 4.1),
  \<^verbatim>\<open>scanByPrefix(prefix)\<close>, a sequence of the entries whose key starts with the
  prefix. The spec leaves open whether an entry comes back as a wrapper
  \<^verbatim>\<open>{key, value}\<close> or as the stored record itself (sections 4.2 and 9); the flag
  \<open>scan_wrapped\<close> of the world says which.\<close>

definition is_prefix :: "string \<Rightarrow> string \<Rightarrow> bool" where
  "is_prefix p s = (take (length p) s = p)"

definition scan_entry :: "bool \<Rightarrow> string \<times> obj \<Rightarrow> obj" where
  "scan_entry wrapped e =
     (if wrapped then [(''key'', JStr (fst e)), (''value'', JObj (snd e))] else snd e)"

definition kv_getByPrefix :: "string \<Rightarrow> world \<Rightarrow> obj list \<times> world" where
  "kv_getByPrefix p w =
     (map (scan_entry (scan_wrapped w)) (filter (\<lambda>e. is_prefix p (fst e)) (kv w)),
      w\<lparr>kv_log := kv_log w @ [KvScan p]\<rparr>)"

section \<open>Responses\<close>

text \<open>\<^verbatim>\<open>c.json(body, status)\<close>: a status code (200 when none is given) and a JSON
  object.\<close>

datatype response = Resp (code: nat) (body: obj)

definition failure :: "nat \<Rightarrow> string \<Rightarrow> response" where
  "failure st msg = Resp st [(''success'', JBool False), (''error'', JStr msg)]"

definition report_of :: "response \<Rightarrow> json option" where
  "report_of r = map_of (body r) ''report''"

section \<open>Reading and creating reports\<close>

text \<open>\<^verbatim>\<open>GET /reports/:id\<close> (lines 300-314).\<close>

definition getReport :: "string \<Rightarrow> world \<Rightarrow> response \<times> world" where
  "getReport rid w =
     (case kv_get (''report:'' @ rid) w of
        (None, w1) \<Rightarrow> (failure 404 ''Report not found'', w1)
      | (Some report, w1) \<Rightarrow>
          (Resp 200 [(''success'', JBool True), (''report'', JObj report)], w1))"

text \<open>\<^verbatim>\<open>x || undefined\<close> keeps a truthy value and drops a falsy one.\<close>

fun if_truthy :: "json option \<Rightarrow> json option" where
  "if_truthy None = None"
| "if_truthy (Some v) = (if truthy v then Some v else None)"

text \<open>\<^verbatim>\<open>imageUrl || null\<close>.\<close>

definition or_null :: "json option \<Rightarrow> json" where
  "or_null v = (case if_truthy v of Some x \<Rightarrow> x | None \<Rightarrow> JNull)"

text \<open>
  \<^verbatim>\<open>POST /reports\<close> (lines 317-345). \<open>req\<close> is the request body: \<open>None\<close> when it is not
  JSON, so that \<^verbatim>\<open>c.req.json()\<close> throws; destructuring the body \<^verbatim>\<open>null\<close> throws too,
  and both land in the \<^verbatim>\<open>catch\<close>. \<open>now_id\<close> and \<open>now_ts\<close> are what the two calls of
  \<^verbatim>\<open>Date.now()\<close> return, the first for the id (line 326), the second for the timestamp
  (line 335).
\<close>

definition createReport :: "json option \<Rightarrow> nat \<Rightarrow> nat \<Rightarrow> world \<Rightarrow> response \<times> world" where
  "createReport req now_id now_ts w =
     (case req of
        None \<Rightarrow> (failure 500 ''Failed to create report'', w)
      | Some JNull \<Rightarrow> (failure 500 ''Failed to create report'', w)
      | Some b \<Rightarrow>
          (case (if_truthy (get_prop ''title'' b), if_truthy (get_prop ''description'' b),
                 if_truthy (get_prop ''type'' b), if_truthy (get_prop ''location'' b)) of
             (Some title, Some description, Some type, Some location) \<Rightarrow>
               (let rid = toString now_id;
                    report =
                      [(''id'', JStr rid),
                       (''title'', title),
                       (''description'', description),
                       (''type'', type),
                       (''location'', location),
                       (''imageUrl'', or_null (get_prop ''imageUrl'' b)),
                       (''status'', JStr ''pending''),
                       (''timestamp'', JNum (int now_ts))]
                in (Resp 200 [(''success'', JBool True), (''report'', JObj report)],
                    kv_set (''report:'' @ rid) report w))
           | _ \<Rightarrow> (failure 400 ''Missing required fields'', w)))"

section \<open>The admin guard\<close>

text \<open>\<^verbatim>\<open>String.prototype.split(' ')\<close>: the pieces between single spaces; the empty
  string gives one empty piece.\<close>

fun split_on :: "char \<Rightarrow> string \<Rightarrow> string list" where
  "split_on c [] = [[]]"
| "split_on c (x # xs) =
     (if x = c then [] # split_on c xs
      else (case split_on c xs of
              [] \<Rightarrow> [[x]]
            | y # ys \<Rightarrow> (x # y) # ys))"

text \<open>\<^verbatim>\<open>c.req.header('Authorization')?.split(' ')[1]\<close>: \<^verbatim>\<open>undefined\<close> when the header is
  absent or has no second piece.\<close>

definition accessToken :: "string option \<Rightarrow> string option" where
  "accessToken hdr =
     (case hdr of
        None \<Rightarrow> None
      | Some h \<Rightarrow> (case split_on CHR '' '' h of
                    a # t # rest \<Rightarrow> Some t
                  | _ \<Rightarrow> None))"

text \<open>What the handlers take from their environment: the value of
  \<^verbatim>\<open>SUPABASE_ANON_KEY\<close> (\<^verbatim>\<open>Deno.env.get\<close> gives \<^verbatim>\<open>undefined\<close> when it is not set), the
  identity provider's \<^verbatim>\<open>auth.getUser\<close> (\<open>None\<close> for an error or no user), and the blob
  store's answers to \<^verbatim>\<open>upload\<close> and \<^verbatim>\<open>createSignedUrl\<close>.\<close>

record env =
  anon_key :: "string option"
  getUser :: "string \<Rightarrow> string option"
  upload_error :: "upload \<Rightarrow> bool"
  createSignedUrl :: "string \<Rightarrow> string \<Rightarrow> nat \<Rightarrow> string option"

text \<open>\<^verbatim>\<open>requireAdmin\<close> (lines 155-170); \<open>next\<close> is the handler behind the guard.\<close>

definition requireAdmin ::
  "env \<Rightarrow> string option \<Rightarrow> (world \<Rightarrow> response \<times> world) \<Rightarrow> world \<Rightarrow> response \<times> world" where
  "requireAdmin e hdr next w =
     (case accessToken hdr of
        None \<Rightarrow> (failure 401 ''Unauthorized - Admin access required'', w)
      | Some tok \<Rightarrow>
          if tok = [] \<or> Some tok = anon_key e
          then (failure 401 ''Unauthorized - Admin access required'', w)
          else (case getUser e tok of
                  None \<Rightarrow> (failure 401 ''Invalid authentication token'', w)
                | Some user \<Rightarrow> next w))"

section \<open>Updating the status and deleting\<close>

definition statuses :: "string list" where
  "statuses = [''pending'', ''in-progress'', ''resolved'']"

text \<open>\<^verbatim>\<open>!status || ![...].includes(status)\<close>: \<^verbatim>\<open>includes\<close> compares with
  \<^verbatim>\<open>SameValueZero\<close>, so only a string that is one of the three passes.\<close>

fun valid_status :: "json option \<Rightarrow> bool" where
  "valid_status (Some (JStr s)) = (s \<noteq> [] \<and> s \<in> set statuses)"
| "valid_status v = False"

text \<open>The handler of \<^verbatim>\<open>PATCH /reports/:id/status\<close> (lines 348-378), behind the guard.
  \<^verbatim>\<open>{ ...report, status }\<close> copies the stored properties and sets \<^verbatim>\<open>status\<close>, in
  place when the record has one.\<close>

definition updateStatus :: "string \<Rightarrow> json option \<Rightarrow> world \<Rightarrow> response \<times> world" where
  "updateStatus rid req w =
     (case req of
        None \<Rightarrow> (failure 500 ''Failed to update report status'', w)
      | Some JNull \<Rightarrow> (failure 500 ''Failed to update report status'', w)
      | Some b \<Rightarrow>
          (case get_prop ''status'' b of
             None \<Rightarrow> (failure 400 ''Invalid status'', w)
           | Some status \<Rightarrow>
               if \<not> valid_status (Some status) then (failure 400 ''Invalid status'', w)
               else (case kv_get (''report:'' @ rid) w of
                       (None, w1) \<Rightarrow> (failure 404 ''Report not found'', w1)
                     | (Some report, w1) \<Rightarrow>
                         (let updatedReport = AList.update ''status'' status report
                          in (Resp 200 [(''success'', JBool True),
                                        (''report'', JObj updatedReport)],
                              kv_set (''report:'' @ rid) updatedReport w1)))))"

definition patchStatusRoute ::
  "env \<Rightarrow> string option \<Rightarrow> string \<Rightarrow> json option \<Rightarrow> world \<Rightarrow> response \<times> world" where
  "patchStatusRoute e hdr rid req = requireAdmin e hdr (updateStatus rid req)"

text \<open>The handler of \<^verbatim>\<open>DELETE /reports/:id\<close> (lines 434-450), behind the guard.\<close>

definition deleteReport :: "string \<Rightarrow> world \<Rightarrow> response \<times> world" where
  "deleteReport rid w =
     (case kv_get (''report:'' @ rid) w of
        (None, w1) \<Rightarrow> (failure 404 ''Report not found'', w1)
      | (Some report, w1) \<Rightarrow>
          (Resp 200 [(''success'', JBool True),
                     (''message'', JStr ''Report deleted successfully'')],
           kv_del (''report:'' @ rid) w1))"

definition deleteRoute :: "env \<Rightarrow> string option \<Rightarrow> string \<Rightarrow> world \<Rightarrow> response \<times> world" where
  "deleteRoute e hdr rid = requireAdmin e hdr (deleteReport rid)"

section \<open>Listing\<close>

text \<open>\<^verbatim>\<open>r.value || r\<close> (line 288).\<close>

definition unwrap :: "obj \<Rightarrow> json" where
  "unwrap r = (case if_truthy (map_of r ''value'') of Some v \<Rightarrow> v | None \<Rightarrow> JObj r)"

text \<open>\<^verbatim>\<open>a.timestamp || 0\<close>.\<close>

definition timestamp_or_0 :: "json \<Rightarrow> json" where
  "timestamp_or_0 a =
     (case if_truthy (get_prop ''timestamp'' a) of Some t \<Rightarrow> t | None \<Rightarrow> JNum 0)"

text \<open>The operand of the subtraction as a number. \<open>None\<close> is \<^verbatim>\<open>NaN\<close>, which is what
  an object gives; what JavaScript makes of a string or an array that stands in a
  timestamp is not modelled, and such a value is \<open>None\<close> here as well.\<close>

fun toNumber :: "json \<Rightarrow> int option" where
  "toNumber JNull = Some 0"
| "toNumber (JBool b) = Some (if b then 1 else 0)"
| "toNumber (JNum n) = Some n"
| "toNumber (JStr s) = None"
| "toNumber (JArr xs) = None"
| "toNumber (JObj ps) = None"

text \<open>The comparator \<^verbatim>\<open>(a, b) => (b.timestamp || 0) - (a.timestamp || 0)\<close> (line 289).\<close>

definition compareFn :: "json \<Rightarrow> json \<Rightarrow> int option" where
  "compareFn a b =
     (case (toNumber (timestamp_or_0 b), toNumber (timestamp_or_0 a)) of
        (Some x, Some y) \<Rightarrow> Some (x - y)
      | _ \<Rightarrow> None)"

text \<open>\<^verbatim>\<open>Array.prototype.sort(comparefn)\<close>: a \<^verbatim>\<open>NaN\<close> from the comparator counts as 0, and
  the sort is stable. For a comparator that orders the elements consistently every
  stable sort returns the same array, the one that insertion from the right builds; for
  any other comparator the order is left to the engine, and the model does not speak
  for it.\<close>

definition sortCompare :: "('a \<Rightarrow> 'a \<Rightarrow> int option) \<Rightarrow> 'a \<Rightarrow> 'a \<Rightarrow> int" where
  "sortCompare cmp x y = (case cmp x y of None \<Rightarrow> 0 | Some v \<Rightarrow> v)"

fun insert_sorted :: "('a \<Rightarrow> 'a \<Rightarrow> int option) \<Rightarrow> 'a \<Rightarrow> 'a list \<Rightarrow> 'a list" where
  "insert_sorted cmp x [] = [x]"
| "insert_sorted cmp x (y # ys) =
     (if sortCompare cmp x y \<le> 0 then x # y # ys else y # insert_sorted cmp x ys)"

definition array_sort :: "('a \<Rightarrow> 'a \<Rightarrow> int option) \<Rightarrow> 'a list \<Rightarrow> 'a list" where
  "array_sort cmp xs = foldr (insert_sorted cmp) xs []"

text \<open>\<^verbatim>\<open>GET /reports\<close> (lines 275-297).\<close>

definition listReports :: "world \<Rightarrow> response \<times> world" where
  "listReports w =
     (case kv_getByPrefix ''report:'' w of
        (reports, w1) \<Rightarrow>
          if length reports = 0
          then (Resp 200 [(''success'', JBool True), (''reports'', JArr [])], w1)
          else (let reportValues = map unwrap reports;
                    sortedReports = array_sort compareFn reportValues
                in (Resp 200 [(''success'', JBool True), (''reports'', JArr sortedReports)],
                    w1)))"

definition reports_of :: "response \<Rightarrow> json list" where
  "reports_of r = (case map_of (body r) ''reports'' of Some (JArr xs) \<Rightarrow> xs | _ \<Rightarrow> [])"


text \<open>The records stored under the prefix \<^verbatim>\<open>report:\<close>, in scan order.\<close>

definition stored_reports :: "world \<Rightarrow> obj list" where
  "stored_reports w = map snd (filter (\<lambda>e. is_prefix ''report:'' (fst e)) (kv w))"

text \<open>The sort key the spec names: the timestamp of a report, 0 when it has none. A
  report's timestamp is a number when it is there (section 3 of the spec).\<close>

definition report_timestamp :: "json \<Rightarrow> int" where
  "report_timestamp a = (case get_prop ''timestamp'' a of Some (JNum n) \<Rightarrow> n | _ \<Rightarrow> 0)"

definition has_numeric_timestamp :: "json \<Rightarrow> bool" where
  "has_numeric_timestamp a =
     (case get_prop ''timestamp'' a of None \<Rightarrow> True | Some (JNum n) \<Rightarrow> True | Some v \<Rightarrow> False)"

section \<open>Uploading an image\<close>

record jsfile =
  fname :: string
  ftype :: string
  fsize :: nat

text \<open>\<^verbatim>\<open>body.file\<close> after \<^verbatim>\<open>parseBody()\<close>: a text field or a file.\<close>

datatype form_value = FormText string | FormFile jsfile

definition allowedTypes :: "string list" where
  "allowedTypes = [''image/jpeg'', ''image/jpg'', ''image/png'', ''image/webp'']"

text \<open>\<^verbatim>\<open>POST /upload\<close> (lines 381-431). A text field has no \<^verbatim>\<open>type\<close>, so a non-empty
  one fails the type check. \<open>now\<close> is what \<^verbatim>\<open>Date.now()\<close> returns at line 402. The
  upload is recorded in \<open>blobs\<close> when the call to the blob store is made, whatever the
  store answers.\<close>

definition uploadImage :: "env \<Rightarrow> form_value option \<Rightarrow> nat \<Rightarrow> world \<Rightarrow> response \<times> world" where
  "uploadImage e field now w =
     (case field of
        None \<Rightarrow> (failure 400 ''No file provided'', w)
      | Some (FormText s) \<Rightarrow>
          if s = [] then (failure 400 ''No file provided'', w)
          else (failure 400
                  ''Invalid file type. Only JPEG, PNG, and WebP are allowed.'', w)
      | Some (FormFile f) \<Rightarrow>
          if ftype f \<notin> set allowedTypes
          then (failure 400
                  ''Invalid file type. Only JPEG, PNG, and WebP are allowed.'', w)
          else if fsize f > 5242880
          then (failure 400 ''File size exceeds 5MB limit'', w)
          else (let bucketName = ''make-6fd663d5-reports'';
                    fileName = toString now @ ''-'' @ fname f;
                    sent = \<lparr>up_bucket = bucketName, up_name = fileName,
                            up_size = fsize f, up_contentType = ftype f\<rparr>;
                    w1 = w\<lparr>blobs := blobs w @ [sent]\<rparr>
                in if upload_error e sent
                   then (failure 500 ''Failed to upload file'', w1)
                   else (case createSignedUrl e bucketName fileName 31536000 of
                           None \<Rightarrow> (failure 500 ''Failed to create signed URL'', w1)
                         | Some url \<Rightarrow>
                             (Resp 200 [(''success'', JBool True),
                                        (''imageUrl'', JStr url)], w1))))"

section \<open>Seeding\<close>

definition sampleReports :: "obj list" where
  "sampleReports =
     [[(''id'', JStr ''1732611600000''),
       (''title'', JStr ''Pothole on Main Street''),
       (''description'', JStr ''Large pothole causing traffic issues near the intersection with Oak Avenue. Needs immediate attention.''),
       (''type'', JStr ''infrastructure''),
       (''location'', JStr ''Main Street & Oak Avenue''),
       (''imageUrl'', JStr ''https://images.unsplash.com/photo-1581094794329-c8112a89af12?w=800&q=80''),
       (''status'', JStr ''in-progress''),
       (''timestamp'', JNum 1732611600000)],
      [(''id'', JStr ''1732698000000''),
       (''title'', JStr ''Broken Street Light''),
       (''description'', JStr ''Street light has been out for a week, making the area unsafe at night.''),
       (''type'', JStr ''safety''),
       (''location'', JStr ''Park Avenue, Block 200''),
       (''imageUrl'', JStr ''https://images.unsplash.com/photo-1513002749550-c59d786b8e6c?w=800&q=80''),
       (''status'', JStr ''pending''),
       (''timestamp'', JNum 1732698000000)],
      [(''id'', JStr ''1732179600000''),
       (''title'', JStr ''Illegal Dumping''),
       (''description'', JStr ''Construction debris dumped in the park area. Environmental hazard.''),
       (''type'', JStr ''environment''),
       (''location'', JStr ''Central Park, East Side''),
       (''imageUrl'', JStr ''https://images.unsplash.com/photo-1532996122724-e3c354a0b15b?w=800&q=80''),
       (''status'', JStr ''resolved''),
       (''timestamp'', JNum 1732179600000)],
      [(''id'', JStr ''1732352400000''),
       (''title'', JStr ''Traffic Signal Malfunction''),
       (''description'', JStr ''Traffic light stuck on red in all directions causing congestion.''),
       (''type'', JStr ''traffic''),
       (''location'', JStr ''Highway 101 & 5th Street''),
       (''imageUrl'', JStr ''https://images.unsplash.com/photo-1449824913935-59a10b8d2000?w=800&q=80''),
       (''status'', JStr ''in-progress''),
       (''timestamp'', JNum 1732352400000)],
      [(''id'', JStr ''1732784400000''),
       (''title'', JStr ''Overflowing Trash Bins''),
       (''description'', JStr ''Public trash bins have not been emptied in several days.''),
       (''type'', JStr ''public-services''),
       (''location'', JStr ''Downtown Shopping District''),
       (''imageUrl'', JStr ''https://images.unsplash.com/photo-1604187351574-c75ca79f5807?w=800&q=80''),
       (''status'', JStr ''pending''),
       (''timestamp'', JNum 1732784400000)]]"

text \<open>The key \<^verbatim>\<open>`report:${report.id}`\<close> of a sample; the ids of the samples are
  strings.\<close>

definition sample_key :: "obj \<Rightarrow> string" where
  "sample_key report =
     ''report:'' @ (case map_of report ''id'' of Some (JStr s) \<Rightarrow> s | _ \<Rightarrow> ''undefined'')"

text \<open>\<^verbatim>\<open>seedDatabase\<close> (lines 76-150): the samples are written only into a store that
  has no report.\<close>

definition seedDatabase :: "world \<Rightarrow> world" where
  "seedDatabase w =
     (case kv_getByPrefix ''report:'' w of
        (existingReports, w1) \<Rightarrow>
          if length existingReports = 0
          then fold (\<lambda>report. kv_set (sample_key report) report) sampleReports w1
          else w1)"

section \<open>Reachable states\<close>

text \<open>The store before any request, and the states the operations lead to from it.
  The requests are arbitrary: any body, any header, any clock reading.\<close>

definition empty_world :: "bool \<Rightarrow> world" where
  "empty_world wrapped = \<lparr>kv = [], kv_log = [], scan_wrapped = wrapped, blobs = []\<rparr>"

inductive reachable :: "env \<Rightarrow> world \<Rightarrow> bool" for e :: env where
  start: "reachable e (empty_world wrapped)"
| seed: "reachable e w \<Longrightarrow> reachable e (seedDatabase w)"
| list: "reachable e w \<Longrightarrow> reachable e (snd (listReports w))"
| get: "reachable e w \<Longrightarrow> reachable e (snd (getReport rid w))"
| create: "reachable e w \<Longrightarrow> reachable e (snd (createReport req now_id now_ts w))"
| patch: "reachable e w \<Longrightarrow> reachable e (snd (patchStatusRoute e hdr rid req w))"
| delete: "reachable e w \<Longrightarrow> reachable e (snd (deleteRoute e hdr rid w))"
| upload: "reachable e w \<Longrightarrow> reachable e (snd (uploadImage e field now w))"

definition types :: "string list" where
  "types = [''infrastructure'', ''safety'', ''environment'', ''traffic'',
            ''public-services'', ''other'']"

text \<open>The invariant as section 3 of the spec words it: non-empty strings for id, title,
  description and location, a type among the six categories, a status among the three.\<close>

fun nonempty_string :: "json option \<Rightarrow> bool" where
  "nonempty_string (Some (JStr s)) = (s \<noteq> [])"
| "nonempty_string v = False"

fun string_in :: "string list \<Rightarrow> json option \<Rightarrow> bool" where
  "string_in xs (Some (JStr s)) = (s \<in> set xs)"
| "string_in xs v = False"

definition spec_valid :: "obj \<Rightarrow> bool" where
  "spec_valid r =
     (nonempty_string (map_of r ''id'') \<and> nonempty_string (map_of r ''title'')
      \<and> nonempty_string (map_of r ''description'') \<and> nonempty_string (map_of r ''location'')
      \<and> string_in types (map_of r ''type'') \<and> string_in statuses (map_of r ''status''))"

text \<open>What the handlers do check before they persist: the four required fields are
  truthy, whatever their JSON type, and the type is not compared with anything.\<close>

definition persisted_ok :: "obj \<Rightarrow> bool" where
  "persisted_ok r =
     (nonempty_string (map_of r ''id'') \<and> truthy_opt (map_of r ''title'')
      \<and> truthy_opt (map_of r ''description'') \<and> truthy_opt (map_of r ''location'')
      \<and> truthy_opt (map_of r ''type'') \<and> string_in statuses (map_of r ''status''))"

section \<open>Example inputs\<close>

definition example_env :: env where
  "example_env =
     \<lparr>anon_key = Some ''anon-key'',
      getUser = (\<lambda>tok. if tok = ''admin-token'' then Some ''admin'' else None),
      upload_error = (\<lambda>u. False),
      createSignedUrl = (\<lambda>bucket name ttl. Some (''https://blobs/'' @ name))\<rparr>"

definition pothole :: json where
  "pothole = JObj [(''title'', JStr ''Pothole''), (''description'', JStr ''Deep hole''),
                   (''type'', JStr ''infrastructure''), (''location'', JStr ''Main St'')]"

definition pothole_empty_image :: json where
  "pothole_empty_image =
     JObj [(''title'', JStr ''Pothole''), (''description'', JStr ''Deep hole''),
           (''type'', JStr ''infrastructure''), (''location'', JStr ''Main St''),
           (''imageUrl'', JStr [])]"

definition pothole_odd_type :: json where
  "pothole_odd_type =
     JObj [(''title'', JStr ''Pothole''), (''description'', JStr ''Deep hole''),
           (''type'', JStr ''banana''), (''location'', JStr ''Main St'')]"

definition stored_pothole :: obj where
  "stored_pothole =
     [(''id'', JStr ''1000''), (''title'', JStr ''Pothole''),
      (''description'', JStr ''Deep hole''), (''type'', JStr ''infrastructure''),
      (''location'', JStr ''Main St''), (''imageUrl'', JNull),
      (''status'', JStr ''pending''), (''timestamp'', JNum 1000)]"

definition pothole_world :: world where
  "pothole_world =
     \<lparr>kv = [(''report:1000'', stored_pothole)], kv_log = [], scan_wrapped = False,
      blobs = []\<rparr>"



section \<open>Facts about the helpers\<close>

lemma toString_nonempty: "toString n \<noteq> []"
  by (subst toString.simps) simp

lemma digit_chars:
  "char_of (48::nat) = CHR ''0''" "char_of (49::nat) = CHR ''1''" "char_of (50::nat) = CHR ''2''"
  "char_of (51::nat) = CHR ''3''" "char_of (52::nat) = CHR ''4''" "char_of (53::nat) = CHR ''5''"
  "char_of (54::nat) = CHR ''6''" "char_of (55::nat) = CHR ''7''" "char_of (56::nat) = CHR ''8''"
  "char_of (57::nat) = CHR ''9''"
  by code_simp+

lemma toString_1000: "toString 1000 = ''1000''"
  by (simp add: toString.simps digit_chars)

lemma toString_before_tick: "toString 1732800000000 = ''1732800000000''"
  by (simp add: toString.simps digit_chars)

lemma toString_after_tick: "toString 1732800000001 = ''1732800000001''"
  by (simp add: toString.simps digit_chars)

lemma createReport_ok:
  assumes "b \<noteq> JNull"
    and "if_truthy (get_prop ''title'' b) = Some t"
    and "if_truthy (get_prop ''description'' b) = Some d"
    and "if_truthy (get_prop ''type'' b) = Some ty"
    and "if_truthy (get_prop ''location'' b) = Some l"
  shows "createReport (Some b) t1 t2 w =
    (Resp 200 [(''success'', JBool True), (''report'', JObj
        [(''id'', JStr (toString t1)), (''title'', t), (''description'', d), (''type'', ty),
         (''location'', l), (''imageUrl'', or_null (get_prop ''imageUrl'' b)),
         (''status'', JStr ''pending''), (''timestamp'', JNum (int t2))])],
     kv_set (''report:'' @ toString t1)
        [(''id'', JStr (toString t1)), (''title'', t), (''description'', d), (''type'', ty),
         (''location'', l), (''imageUrl'', or_null (get_prop ''imageUrl'' b)),
         (''status'', JStr ''pending''), (''timestamp'', JNum (int t2))] w)"
  using assms by (cases b) (simp_all add: createReport_def Let_def)

lemma createReport_fail:
  assumes "if_truthy (get_prop ''title'' b) = None \<or> if_truthy (get_prop ''description'' b) = None
     \<or> if_truthy (get_prop ''type'' b) = None \<or> if_truthy (get_prop ''location'' b) = None"
  shows "createReport (Some b) t1 t2 w = (failure 500 ''Failed to create report'', w)
       \<or> createReport (Some b) t1 t2 w = (failure 400 ''Missing required fields'', w)"
  using assms
  by (cases b) (auto simp: createReport_def split: option.splits)

lemma createReport_cases:
  "(\<exists>b t d ty l. req = Some b \<and> b \<noteq> JNull
     \<and> if_truthy (get_prop ''title'' b) = Some t
     \<and> if_truthy (get_prop ''description'' b) = Some d
     \<and> if_truthy (get_prop ''type'' b) = Some ty
     \<and> if_truthy (get_prop ''location'' b) = Some l)
   \<or> createReport req t1 t2 w = (failure 500 ''Failed to create report'', w)
   \<or> createReport req t1 t2 w = (failure 400 ''Missing required fields'', w)"
proof (cases req)
  case None
  then show ?thesis by (simp add: createReport_def)
next
  case (Some b)
  show ?thesis
  proof (cases "b = JNull")
    case True
    with Some show ?thesis by (simp add: createReport_def)
  next
    case False
    show ?thesis
    proof (cases "if_truthy (get_prop ''title'' b) = None \<or> if_truthy (get_prop ''description'' b) = None
     \<or> if_truthy (get_prop ''type'' b) = None \<or> if_truthy (get_prop ''location'' b) = None")
      case True
      from createReport_fail[OF True] Some show ?thesis by blast
    next
      case False
      with Some \<open>b \<noteq> JNull\<close> show ?thesis by auto
    qed
  qed
qed

lemma if_truthy_Some: "if_truthy v = Some x \<longleftrightarrow> v = Some x \<and> truthy x"
  by (cases v) auto


section \<open>Creating a report and reading it back\<close>

text \<open>
  C1 (as amended). For every create request whose title, description, type and location
  are present and truthy (for strings: non-empty), the request answers 200 with the new
  record, and fetching the returned id from the resulting store gives that same record.
  Its title, description, type and location are the submitted values; its imageUrl is
  the submitted one when that is truthy and \<^verbatim>\<open>null\<close> otherwise; its status is
  \<^verbatim>\<open>"pending"\<close>; its id and timestamp come from the server's clock.
\<close>

theorem create_then_get_roundtrip:
  assumes "map_of ps ''title'' = Some t" and "truthy t"
    and "map_of ps ''description'' = Some d" and "truthy d"
    and "map_of ps ''type'' = Some ty" and "truthy ty"
    and "map_of ps ''location'' = Some l" and "truthy l"
  shows "\<exists>r w'. createReport (Some (JObj ps)) now_id now_ts w =
            (Resp 200 [(''success'', JBool True), (''report'', JObj r)], w')
          \<and> fst (getReport (toString now_id) w') =
               Resp 200 [(''success'', JBool True), (''report'', JObj r)]
          \<and> map_of r ''title'' = Some t \<and> map_of r ''description'' = Some d
          \<and> map_of r ''type'' = Some ty \<and> map_of r ''location'' = Some l
          \<and> (truthy_opt (map_of ps ''imageUrl'') \<longrightarrow> map_of r ''imageUrl'' = map_of ps ''imageUrl'')
          \<and> (\<not> truthy_opt (map_of ps ''imageUrl'') \<longrightarrow> map_of r ''imageUrl'' = Some JNull)
          \<and> map_of r ''status'' = Some (JStr ''pending'')
          \<and> map_of r ''id'' = Some (JStr (toString now_id))
          \<and> map_of r ''timestamp'' = Some (JNum (int now_ts))"
proof -
  have ok: "createReport (Some (JObj ps)) now_id now_ts w =
    (Resp 200 [(''success'', JBool True), (''report'', JObj
        [(''id'', JStr (toString now_id)), (''title'', t), (''description'', d), (''type'', ty),
         (''location'', l), (''imageUrl'', or_null (get_prop ''imageUrl'' (JObj ps))),
         (''status'', JStr ''pending''), (''timestamp'', JNum (int now_ts))])],
     kv_set (''report:'' @ toString now_id)
        [(''id'', JStr (toString now_id)), (''title'', t), (''description'', d), (''type'', ty),
         (''location'', l), (''imageUrl'', or_null (get_prop ''imageUrl'' (JObj ps))),
         (''status'', JStr ''pending''), (''timestamp'', JNum (int now_ts))] w)"
    by (rule createReport_ok) (simp_all add: assms)
  have img1: "truthy_opt (map_of ps ''imageUrl'') \<Longrightarrow> Some (or_null (map_of ps ''imageUrl'')) = map_of ps ''imageUrl''"
    by (cases "map_of ps ''imageUrl''") (simp_all add: or_null_def)
  have img2: "\<not> truthy_opt (map_of ps ''imageUrl'') \<Longrightarrow> or_null (map_of ps ''imageUrl'') = JNull"
    by (cases "map_of ps ''imageUrl''") (simp_all add: or_null_def)
  have get: "fst (getReport (toString now_id) (kv_set (''report:'' @ toString now_id) r w)) =
     Resp 200 [(''success'', JBool True), (''report'', JObj r)]" for r
    by (simp add: getReport_def kv_get_def kv_set_def update_conv')
  show ?thesis
    unfolding ok using img1 img2 get by simp
qed

theorem create_then_get_roundtrip_witness:
  "\<exists>r w'. createReport (Some pothole) 1000 1000 (empty_world False) =
            (Resp 200 [(''success'', JBool True), (''report'', JObj r)], w')
          \<and> fst (getReport (toString 1000) w') =
               Resp 200 [(''success'', JBool True), (''report'', JObj r)]
          \<and> map_of r ''title'' = Some (JStr ''Pothole'')
          \<and> map_of r ''imageUrl'' = Some JNull
          \<and> map_of r ''status'' = Some (JStr ''pending'')"
  using create_then_get_roundtrip [of "[(''title'', JStr ''Pothole''), (''description'', JStr ''Deep hole''),
                   (''type'', JStr ''infrastructure''), (''location'', JStr ''Main St'')]"
      "JStr ''Pothole''" "JStr ''Deep hole''" "JStr ''infrastructure''" "JStr ''Main St''"
      1000 1000 "empty_world False"]
  unfolding pothole_def by simp blast

text \<open>
  C1 as it is written asks for the fetched imageUrl to equal the submitted one. A request
  that submits the empty string as imageUrl gets \<^verbatim>\<open>null\<close> back, because line 333
  stores \<^verbatim>\<open>imageUrl || null\<close>.
\<close>

theorem roundtrip_imageUrl_counterexample:
  "report_of (fst (getReport ''1000''
      (snd (createReport (Some pothole_empty_image) 1000 1000 (empty_world False)))))
     = Some (JObj stored_pothole)
   \<and> get_prop ''imageUrl'' (JObj stored_pothole) = Some JNull
   \<and> get_prop ''imageUrl'' pothole_empty_image = Some (JStr [])"
  by (simp add: pothole_empty_image_def stored_pothole_def createReport_def getReport_def
      kv_get_def kv_set_def empty_world_def report_of_def or_null_def toString_1000 Let_def)

text \<open>
  C10. For every successful create request whose body has no imageUrl, or a falsy one
  (\<^verbatim>\<open>null\<close>, \<^verbatim>\<open>false\<close>, \<^verbatim>\<open>0\<close>, \<^verbatim>\<open>""\<close>), the report that is returned and the report
  that is persisted under the new key carry the property imageUrl with the value
  \<^verbatim>\<open>null\<close>.
\<close>

theorem create_imageUrl_null:
  assumes "code (fst (createReport (Some b) now_id now_ts w)) = 200"
    and "\<not> truthy_opt (get_prop ''imageUrl'' b)"
  shows "\<exists>r. report_of (fst (createReport (Some b) now_id now_ts w)) = Some (JObj r)
           \<and> map_of (kv (snd (createReport (Some b) now_id now_ts w))) (''report:'' @ toString now_id) = Some r
           \<and> map_of r ''imageUrl'' = Some JNull"
proof -
  from createReport_cases[of "Some b" now_id now_ts w] assms(1)
  obtain t d ty l where f: "b \<noteq> JNull" "if_truthy (get_prop ''title'' b) = Some t"
     "if_truthy (get_prop ''description'' b) = Some d"
     "if_truthy (get_prop ''type'' b) = Some ty"
     "if_truthy (get_prop ''location'' b) = Some l"
    by (auto simp: failure_def)
  from assms(2) have "or_null (get_prop ''imageUrl'' b) = JNull"
    by (cases "get_prop ''imageUrl'' b") (simp_all add: or_null_def)
  then show ?thesis
    unfolding createReport_ok[OF f]
    by (simp add: report_of_def kv_set_def update_conv')
qed

theorem create_imageUrl_null_witness:
  "code (fst (createReport (Some pothole) 1000 1000 (empty_world False))) = 200
   \<and> \<not> truthy_opt (get_prop ''imageUrl'' pothole)
   \<and> (\<exists>r. report_of (fst (createReport (Some pothole) 1000 1000 (empty_world False))) = Some (JObj r)
           \<and> map_of (kv (snd (createReport (Some pothole) 1000 1000 (empty_world False)))) (''report:'' @ toString 1000) = Some r
           \<and> map_of r ''imageUrl'' = Some JNull)"
proof -
  have h1: "code (fst (createReport (Some pothole) 1000 1000 (empty_world False))) = 200"
    by (simp add: pothole_def createReport_def Let_def)
  have h2: "\<not> truthy_opt (get_prop ''imageUrl'' pothole)"
    by (simp add: pothole_def)
  from create_imageUrl_null[OF h1 h2] h1 h2 show ?thesis by blast
qed

text \<open>
  C8. The id is the decimal string of the first clock reading (line 326) and the
  timestamp is the second reading (line 335). When the clock ticks between the two
  calls, here from 1732800000000 to 1732800000001, the id of the new report is
  \<^verbatim>\<open>"1732800000000"\<close> while the decimal string of its timestamp is
  \<^verbatim>\<open>"1732800000001"\<close>.
\<close>

theorem create_id_differs_from_timestamp:
  "report_of (fst (createReport (Some pothole) 1732800000000 1732800000001 (empty_world False))) =
     Some (JObj [(''id'', JStr ''1732800000000''), (''title'', JStr ''Pothole''),
      (''description'', JStr ''Deep hole''), (''type'', JStr ''infrastructure''),
      (''location'', JStr ''Main St''), (''imageUrl'', JNull),
      (''status'', JStr ''pending''), (''timestamp'', JNum 1732800000001)])
   \<and> toString 1732800000001 \<noteq> ''1732800000000''"
  by (simp add: pothole_def createReport_def report_of_def or_null_def toString_before_tick
      toString_after_tick Let_def)

section \<open>The guard in front of the mutating routes\<close>

lemma split_on_no_sep: "c \<notin> set s \<Longrightarrow> split_on c s = [s]"
  by (induction s) auto

lemma split_on_append_sep: "c \<notin> set a \<Longrightarrow> split_on c (a @ c # s) = a # split_on c s"
  by (induction a) auto

lemma accessToken_bearer:
  "CHR '' '' \<notin> set tok \<Longrightarrow> accessToken (Some (''Bearer '' @ tok)) = Some tok"
proof -
  assume a: "CHR '' '' \<notin> set tok"
  have "split_on CHR '' '' (''Bearer'' @ CHR '' '' # tok) = ''Bearer'' # split_on CHR '' '' tok"
    by (rule split_on_append_sep) simp
  with split_on_no_sep[OF a] show ?thesis by (simp add: accessToken_def)
qed

lemma accessToken_absent: "accessToken None = None"
  by (simp add: accessToken_def)

lemma requireAdmin_pass:
  assumes "accessToken hdr = Some tok" "tok \<noteq> []" "Some tok \<noteq> anon_key e" "getUser e tok = Some u"
  shows "requireAdmin e hdr next w = next w"
  using assms by (simp add: requireAdmin_def)

lemma requireAdmin_cases:
  "requireAdmin e hdr next w = next w
   \<or> requireAdmin e hdr next w = (failure 401 ''Unauthorized - Admin access required'', w)
   \<or> requireAdmin e hdr next w = (failure 401 ''Invalid authentication token'', w)"
  by (simp add: requireAdmin_def split: option.splits)

text \<open>
  C3. An update-status or delete request whose Authorization header is absent, or has no
  second space-separated piece, or an empty one, or whose token is the anonymous key, is
  answered 401 Unauthorized, and the world comes back as it was: no report is changed
  and the access log of the store has no new entry, so the store was neither read nor
  written.
\<close>

theorem guard_rejects_missing_or_anon_token:
  assumes "hdr = None \<or> accessToken hdr = None \<or> accessToken hdr = Some []
           \<or> (\<exists>tok. accessToken hdr = Some tok \<and> anon_key e = Some tok)"
  shows "patchStatusRoute e hdr rid req w = (failure 401 ''Unauthorized - Admin access required'', w)
       \<and> deleteRoute e hdr rid w = (failure 401 ''Unauthorized - Admin access required'', w)
       \<and> code (failure 401 ''Unauthorized - Admin access required'') = 401"
  using assms
  by (auto simp: patchStatusRoute_def deleteRoute_def requireAdmin_def accessToken_def failure_def)

theorem guard_rejects_missing_or_anon_token_witness:
  "patchStatusRoute example_env None ''1000'' (Some (JObj [(''status'', JStr ''resolved'')])) pothole_world
     = (failure 401 ''Unauthorized - Admin access required'', pothole_world)
   \<and> deleteRoute example_env (Some ''Bearer anon-key'') ''1000'' pothole_world
     = (failure 401 ''Unauthorized - Admin access required'', pothole_world)"
proof -
  have a: "accessToken (Some ''Bearer anon-key'') = Some ''anon-key''"
    by (simp add: accessToken_def)
  have h: "Some ''Bearer anon-key'' = None \<or> accessToken (Some ''Bearer anon-key'') = None
      \<or> accessToken (Some ''Bearer anon-key'') = Some []
      \<or> (\<exists>tok. accessToken (Some ''Bearer anon-key'') = Some tok \<and> anon_key example_env = Some tok)"
    by (simp add: a example_env_def)
  from guard_rejects_missing_or_anon_token[of None example_env "''1000''"
        "Some (JObj [(''status'', JStr ''resolved'')])" pothole_world]
       guard_rejects_missing_or_anon_token[OF h, of "''1000''" None pothole_world]
  show ?thesis by simp
qed

section \<open>Updating the status\<close>

lemma updateStatus_invalid:
  assumes "\<forall>b. req = Some b \<longrightarrow>
             get_prop ''status'' b \<notin> {Some (JStr ''pending''), Some (JStr ''in-progress''),
                                        Some (JStr ''resolved'')}"
  shows "updateStatus rid req w =
           (if req = None \<or> req = Some JNull
            then failure 500 ''Failed to update report status''
            else failure 400 ''Invalid status'', w)"
proof (cases req)
  case None
  then show ?thesis by (simp add: updateStatus_def)
next
  case (Some b)
  with assms have "get_prop ''status'' b \<notin> {Some (JStr ''pending''), Some (JStr ''in-progress''),
                                        Some (JStr ''resolved'')}"
    by simp
  then have nv: "\<not> valid_status (get_prop ''status'' b)"
    by (cases "get_prop ''status'' b" rule: valid_status.cases) (auto simp: statuses_def)
  with Some show ?thesis
    by (cases b; cases "get_prop ''status'' b") (simp_all add: updateStatus_def)
qed

text \<open>
  C4 (as amended). For an update-status request that passes the guard and whose status
  is none of \<^verbatim>\<open>"pending"\<close>, \<^verbatim>\<open>"in-progress"\<close>, \<^verbatim>\<open>"resolved"\<close> (a missing status
  included), the world comes back as it was, the stored record for that id with it. The
  answer is 400 when the body is a JSON value other than \<^verbatim>\<open>null\<close>; when the body is
  \<^verbatim>\<open>null\<close> or is not JSON, reading it throws (lines 351-352) and the \<^verbatim>\<open>catch\<close> answers
  500.
\<close>

theorem invalid_status_never_mutates:
  assumes "accessToken hdr = Some tok" and "tok \<noteq> []" and "Some tok \<noteq> anon_key e"
    and "getUser e tok = Some u"
    and "\<forall>b. req = Some b \<longrightarrow>
             get_prop ''status'' b \<notin> {Some (JStr ''pending''), Some (JStr ''in-progress''),
                                        Some (JStr ''resolved'')}"
  shows "patchStatusRoute e hdr rid req w =
           (if req = None \<or> req = Some JNull
            then failure 500 ''Failed to update report status''
            else failure 400 ''Invalid status'', w)
         \<and> code (failure 500 ''Failed to update report status'') = 500
         \<and> code (failure 400 ''Invalid status'') = 400"
  using requireAdmin_pass[OF assms(1-4)] updateStatus_invalid[OF assms(5)]
  by (simp add: patchStatusRoute_def failure_def)

theorem invalid_status_never_mutates_witness:
  "patchStatusRoute example_env (Some ''Bearer admin-token'') ''1000''
      (Some (JObj [(''status'', JStr ''closed'')])) pothole_world
     = (failure 400 ''Invalid status'', pothole_world)
   \<and> patchStatusRoute example_env (Some ''Bearer admin-token'') ''1000''
      (Some (JObj [])) pothole_world
     = (failure 400 ''Invalid status'', pothole_world)
   \<and> patchStatusRoute example_env (Some ''Bearer admin-token'') ''1000'' None pothole_world
     = (failure 500 ''Failed to update report status'', pothole_world)"
proof -
  have a: "accessToken (Some ''Bearer admin-token'') = Some ''admin-token''"
    by (simp add: accessToken_def)
  have b: "''admin-token'' \<noteq> []" "Some ''admin-token'' \<noteq> anon_key example_env"
     "getUser example_env ''admin-token'' = Some ''admin''"
    by (simp_all add: example_env_def)
  have d1: "\<forall>b. Some (JObj [(''status'', JStr ''closed'')]) = Some b \<longrightarrow>
      get_prop ''status'' b \<notin> {Some (JStr ''pending''), Some (JStr ''in-progress''),
                                 Some (JStr ''resolved'')}"
    by simp
  have d2: "\<forall>b. Some (JObj []) = Some b \<longrightarrow>
      get_prop ''status'' b \<notin> {Some (JStr ''pending''), Some (JStr ''in-progress''),
                                 Some (JStr ''resolved'')}"
    by simp
  have d3: "\<forall>b. (None :: json option) = Some b \<longrightarrow>
      get_prop ''status'' b \<notin> {Some (JStr ''pending''), Some (JStr ''in-progress''),
                                 Some (JStr ''resolved'')}"
    by simp
  from invalid_status_never_mutates[OF a b d1, of "''1000''" pothole_world]
       invalid_status_never_mutates[OF a b d2, of "''1000''" pothole_world]
       invalid_status_never_mutates[OF a b d3, of "''1000''" pothole_world]
  show ?thesis by simp
qed

text \<open>
  C4 as it is written has every such request answered 400. An authorized request whose
  body is the JSON value \<^verbatim>\<open>null\<close> carries no status; destructuring it throws, and the
  answer is 500. The store is untouched all the same.
\<close>

theorem null_body_status_counterexample:
  "patchStatusRoute example_env (Some ''Bearer admin-token'') ''1000'' (Some JNull) pothole_world
     = (Resp 500 [(''success'', JBool False), (''error'', JStr ''Failed to update report status'')],
        pothole_world)"
  by (simp add: patchStatusRoute_def requireAdmin_def accessToken_def example_env_def
      updateStatus_def failure_def)

lemma updateStatus_ok:
  assumes "get_prop ''status'' b = Some (JStr s)" and "s \<in> set statuses"
    and "map_of (kv w) (''report:'' @ rid) = Some r"
  shows "updateStatus rid (Some b) w =
     (Resp 200 [(''success'', JBool True), (''report'', JObj (AList.update ''status'' (JStr s) r))],
      kv_set (''report:'' @ rid) (AList.update ''status'' (JStr s) r)
        (w\<lparr>kv_log := kv_log w @ [KvGet (''report:'' @ rid)]\<rparr>))"
proof -
  from assms(2) have "s \<noteq> []" by (auto simp: statuses_def)
  with assms show ?thesis
    by (cases b) (simp_all add: updateStatus_def kv_get_def Let_def)
qed

text \<open>
  C5. For an update-status request that passes the guard, names one of the three
  statuses and addresses a stored report, the record that is returned is the record
  that is persisted under the report's key; its status is the requested one, and every
  other property (id, title, description, location, type, timestamp, imageUrl and any
  further one) has the value it had in the stored record. The records under the other
  keys are untouched.
\<close>

theorem update_status_changes_only_status:
  assumes "accessToken hdr = Some tok" and "tok \<noteq> []" and "Some tok \<noteq> anon_key e"
    and "getUser e tok = Some u"
    and "get_prop ''status'' b = Some (JStr s)" and "s \<in> set statuses"
    and "map_of (kv w) (''report:'' @ rid) = Some r"
  shows "\<exists>r'. fst (patchStatusRoute e hdr rid (Some b) w) =
                 Resp 200 [(''success'', JBool True), (''report'', JObj r')]
          \<and> map_of (kv (snd (patchStatusRoute e hdr rid (Some b) w))) (''report:'' @ rid) = Some r'
          \<and> map_of r' ''status'' = Some (JStr s)
          \<and> (\<forall>k. k \<noteq> ''status'' \<longrightarrow> map_of r' k = map_of r k)
          \<and> (\<forall>k'. k' \<noteq> ''report:'' @ rid \<longrightarrow>
                map_of (kv (snd (patchStatusRoute e hdr rid (Some b) w))) k' = map_of (kv w) k')"
  unfolding patchStatusRoute_def requireAdmin_pass[OF assms(1-4)] updateStatus_ok[OF assms(5-7)]
  by (simp add: kv_set_def update_conv')

theorem update_status_changes_only_status_witness:
  "\<exists>r'. fst (patchStatusRoute example_env (Some ''Bearer admin-token'') ''1000''
               (Some (JObj [(''status'', JStr ''resolved'')])) pothole_world) =
                 Resp 200 [(''success'', JBool True), (''report'', JObj r')]
      \<and> map_of r' ''status'' = Some (JStr ''resolved'')
      \<and> map_of r' ''id'' = Some (JStr ''1000'')
      \<and> map_of r' ''title'' = Some (JStr ''Pothole'')
      \<and> map_of r' ''timestamp'' = Some (JNum 1000)"
proof -
  have a: "accessToken (Some ''Bearer admin-token'') = Some ''admin-token''"
    by (simp add: accessToken_def)
  have b: "''admin-token'' \<noteq> []" "Some ''admin-token'' \<noteq> anon_key example_env"
     "getUser example_env ''admin-token'' = Some ''admin''"
    by (simp_all add: example_env_def)
  have c: "get_prop ''status'' (JObj [(''status'', JStr ''resolved'')]) = Some (JStr ''resolved'')"
     "''resolved'' \<in> set statuses"
    by (simp_all add: statuses_def)
  have d: "map_of (kv pothole_world) (''report:'' @ ''1000'') = Some stored_pothole"
    by (simp add: pothole_world_def)
  from update_status_changes_only_status[OF a b c d]
  obtain r' where r': "fst (patchStatusRoute example_env (Some ''Bearer admin-token'') ''1000''
               (Some (JObj [(''status'', JStr ''resolved'')])) pothole_world) =
                 Resp 200 [(''success'', JBool True), (''report'', JObj r')]"
      "map_of r' ''status'' = Some (JStr ''resolved'')"
      "\<forall>k. k \<noteq> ''status'' \<longrightarrow> map_of r' k = map_of stored_pothole k"
    by blast
  from r'(3) have "map_of r' ''id'' = Some (JStr ''1000'')" "map_of r' ''title'' = Some (JStr ''Pothole'')"
      "map_of r' ''timestamp'' = Some (JNum 1000)"
    by (simp_all add: stored_pothole_def)
  with r'(1,2) show ?thesis by blast
qed

section \<open>Uploads\<close>

lemma allowedTypes_set:
  "set allowedTypes = {''image/jpeg'', ''image/jpg'', ''image/png'', ''image/webp''}"
  by (auto simp: allowedTypes_def)

text \<open>
  C9. A file whose content type is on the allowed list (JPEG under its two names, PNG,
  WebP) and whose size is at most 5,242,880 bytes passes validation: the answer is not
  a 400 and the file is sent to the blob store. A file of 5,242,881 bytes or more, or of
  any other content type, is answered 400 and nothing is sent: the world, with its list
  of uploads, comes back as it was.
\<close>

theorem upload_validation_bounds:
  "(ftype f \<in> set allowedTypes \<and> fsize f \<le> 5242880 \<longrightarrow>
      code (fst (uploadImage e (Some (FormFile f)) now w)) \<noteq> 400
      \<and> blobs (snd (uploadImage e (Some (FormFile f)) now w)) =
          blobs w @ [\<lparr>up_bucket = ''make-6fd663d5-reports'',
                      up_name = toString now @ ''-'' @ fname f,
                      up_size = fsize f, up_contentType = ftype f\<rparr>])
   \<and> (ftype f \<notin> set allowedTypes \<or> 5242881 \<le> fsize f \<longrightarrow>
      code (fst (uploadImage e (Some (FormFile f)) now w)) = 400
      \<and> snd (uploadImage e (Some (FormFile f)) now w) = w)"
  by (auto simp: uploadImage_def failure_def Let_def split: option.splits)

theorem upload_validation_bounds_witness:
  "code (fst (uploadImage example_env
            (Some (FormFile \<lparr>fname = ''hole.png'', ftype = ''image/png'', fsize = 5242880\<rparr>))
            1000 (empty_world False))) \<noteq> 400
   \<and> code (fst (uploadImage example_env
            (Some (FormFile \<lparr>fname = ''hole.png'', ftype = ''image/png'', fsize = 5242881\<rparr>))
            1000 (empty_world False))) = 400
   \<and> snd (uploadImage example_env
            (Some (FormFile \<lparr>fname = ''hole.gif'', ftype = ''image/gif'', fsize = 10\<rparr>))
            1000 (empty_world False)) = empty_world False"
  using upload_validation_bounds[of "\<lparr>fname = ''hole.png'', ftype = ''image/png'', fsize = 5242880\<rparr>"
          example_env 1000 "empty_world False"]
        upload_validation_bounds[of "\<lparr>fname = ''hole.png'', ftype = ''image/png'', fsize = 5242881\<rparr>"
          example_env 1000 "empty_world False"]
        upload_validation_bounds[of "\<lparr>fname = ''hole.gif'', ftype = ''image/gif'', fsize = 10\<rparr>"
          example_env 1000 "empty_world False"]
  by (simp add: allowedTypes_def)

section \<open>Listing the reports\<close>

lemma compareFn_numeric:
  assumes "has_numeric_timestamp a" and "has_numeric_timestamp b"
  shows "compareFn a b = Some (report_timestamp b - report_timestamp a)"
proof -
  have k: "toNumber (timestamp_or_0 x) = Some (report_timestamp x)" if "has_numeric_timestamp x" for x
    using that
    by (auto simp: has_numeric_timestamp_def report_timestamp_def timestamp_or_0_def
        split: option.splits json.splits)
  from k[OF assms(1)] k[OF assms(2)] show ?thesis by (simp add: compareFn_def)
qed

lemma mset_insert_sorted: "mset (insert_sorted cmp x xs) = add_mset x (mset xs)"
  by (induction xs) auto

lemma mset_array_sort: "mset (array_sort cmp xs) = mset xs"
  by (induction xs) (auto simp: array_sort_def mset_insert_sorted)

lemma set_array_sort: "set (array_sort cmp xs) = set xs"
  by (metis mset_array_sort set_mset_mset)

lemma set_insert_sorted: "set (insert_sorted cmp x xs) = insert x (set xs)"
  by (induction xs) auto

lemma sorted_insert_sorted:
  assumes "has_numeric_timestamp x" and "\<forall>y\<in>set xs. has_numeric_timestamp y"
    and "sorted_wrt (\<lambda>a b. report_timestamp b \<le> report_timestamp a) xs"
  shows "sorted_wrt (\<lambda>a b. report_timestamp b \<le> report_timestamp a) (insert_sorted compareFn x xs)"
  using assms
proof (induction xs)
  case Nil
  then show ?case by simp
next
  case (Cons y ys)
  from Cons.prems have c: "sortCompare compareFn x y = report_timestamp y - report_timestamp x"
    by (simp add: sortCompare_def compareFn_numeric)
  show ?case
  proof (cases "sortCompare compareFn x y \<le> 0")
    case True
    with c Cons.prems show ?thesis by auto
  next
    case False
    with c Cons show ?thesis by (auto simp: set_insert_sorted)
  qed
qed

lemma sorted_array_sort:
  assumes "\<forall>y\<in>set xs. has_numeric_timestamp y"
  shows "sorted_wrt (\<lambda>a b. report_timestamp b \<le> report_timestamp a) (array_sort compareFn xs)"
  using assms
proof (induction xs)
  case Nil
  then show ?case by (simp add: array_sort_def)
next
  case (Cons x xs)
  then have "sorted_wrt (\<lambda>a b. report_timestamp b \<le> report_timestamp a) (array_sort compareFn xs)"
    by simp
  moreover have "\<forall>y\<in>set (array_sort compareFn xs). has_numeric_timestamp y"
    using Cons.prems by (simp add: set_array_sort)
  ultimately have "sorted_wrt (\<lambda>a b. report_timestamp b \<le> report_timestamp a)
      (insert_sorted compareFn x (array_sort compareFn xs))"
    using Cons.prems by (intro sorted_insert_sorted) simp_all
  then show ?case by (simp add: array_sort_def)
qed

lemma listReports_result:
  "reports_of (fst (listReports w)) = array_sort compareFn (map unwrap (fst (kv_getByPrefix ''report:'' w)))"
  by (simp add: listReports_def reports_of_def kv_getByPrefix_def array_sort_def Let_def)

lemma listReports_code: "code (fst (listReports w)) = 200"
  by (simp add: listReports_def kv_getByPrefix_def Let_def)

lemma unwrap_scan_entry:
  "wrapped \<or> \<not> truthy_opt (map_of (snd e) ''value'') \<Longrightarrow> unwrap (scan_entry wrapped e) = JObj (snd e)"
  by (cases "map_of (snd e) ''value''") (auto simp: unwrap_def scan_entry_def)

lemma unwrap_scan:
  assumes "scan_wrapped w \<or> list_all (\<lambda>r. \<not> truthy_opt (map_of r ''value'')) (stored_reports w)"
  shows "map unwrap (fst (kv_getByPrefix ''report:'' w)) = map JObj (stored_reports w)"
proof -
  have "unwrap (scan_entry (scan_wrapped w) e) = JObj (snd e)"
    if "e \<in> set (filter (\<lambda>e. is_prefix ''report:'' (fst e)) (kv w))" for e
  proof (rule unwrap_scan_entry)
    from assms that show "scan_wrapped w \<or> \<not> truthy_opt (map_of (snd e) ''value'')"
      by (cases e) (auto simp: stored_reports_def list_all_iff)
  qed
  then show ?thesis
    by (simp add: kv_getByPrefix_def stored_reports_def)
qed

text \<open>
  C2. For every store whose reports have a number as timestamp or none at all (and, when
  the scan returns the raw records, no truthy property \<^verbatim>\<open>value\<close> of their own), the
  list-reports operation answers 200 with exactly the stored reports, ordered by
  descending timestamp, a report without timestamp counting as 0; for a store with no
  report the sequence is empty.
\<close>

theorem list_reports_newest_first:
  assumes "list_all (\<lambda>r. has_numeric_timestamp (JObj r)) (stored_reports w)"
    and "scan_wrapped w \<or> list_all (\<lambda>r. \<not> truthy_opt (map_of r ''value'')) (stored_reports w)"
  shows "code (fst (listReports w)) = 200
       \<and> mset (reports_of (fst (listReports w))) = mset (map JObj (stored_reports w))
       \<and> sorted_wrt (\<lambda>a b. report_timestamp b \<le> report_timestamp a)
            (reports_of (fst (listReports w)))
       \<and> (stored_reports w = [] \<longrightarrow> reports_of (fst (listReports w)) = [])"
proof -
  have r: "reports_of (fst (listReports w)) = array_sort compareFn (map JObj (stored_reports w))"
    by (simp add: listReports_result unwrap_scan[OF assms(2)])
  have n: "\<forall>y\<in>set (map JObj (stored_reports w)). has_numeric_timestamp y"
    using assms(1) by (auto simp: list_all_iff)
  have e: "stored_reports w = [] \<longrightarrow> array_sort compareFn (map JObj (stored_reports w)) = []"
    by (simp add: array_sort_def)
  show ?thesis
    unfolding r using sorted_array_sort[OF n] e
    by (simp add: listReports_code mset_array_sort)
qed

lemma seeded_reports: "stored_reports (seedDatabase (empty_world False)) = sampleReports"
  by (simp add: seedDatabase_def kv_getByPrefix_def empty_world_def sampleReports_def
      sample_key_def kv_set_def stored_reports_def is_prefix_def)

theorem list_reports_newest_first_witness:
  "list_all (\<lambda>r. has_numeric_timestamp (JObj r)) (stored_reports (seedDatabase (empty_world False)))
   \<and> list_all (\<lambda>r. \<not> truthy_opt (map_of r ''value'')) (stored_reports (seedDatabase (empty_world False)))
   \<and> length (reports_of (fst (listReports (seedDatabase (empty_world False))))) = 5
   \<and> sorted_wrt (\<lambda>a b. report_timestamp b \<le> report_timestamp a)
        (reports_of (fst (listReports (seedDatabase (empty_world False)))))"
proof -
  have h1: "list_all (\<lambda>r. has_numeric_timestamp (JObj r)) (stored_reports (seedDatabase (empty_world False)))"
    unfolding seeded_reports by (simp add: sampleReports_def has_numeric_timestamp_def)
  have h2: "list_all (\<lambda>r. \<not> truthy_opt (map_of r ''value'')) (stored_reports (seedDatabase (empty_world False)))"
    unfolding seeded_reports by (simp add: sampleReports_def)
  from h2 have h2': "scan_wrapped (seedDatabase (empty_world False))
      \<or> list_all (\<lambda>r. \<not> truthy_opt (map_of r ''value'')) (stored_reports (seedDatabase (empty_world False)))"
    by simp
  note t = list_reports_newest_first[OF h1 h2']
  from t have "size (mset (reports_of (fst (listReports (seedDatabase (empty_world False)))))) = size (mset (map JObj sampleReports))"
    unfolding seeded_reports by simp
  then have "length (reports_of (fst (listReports (seedDatabase (empty_world False))))) = 5"
    by (simp add: sampleReports_def)
  with t h1 h2 show ?thesis by blast
qed





section \<open>What every persisted report satisfies\<close>

lemma list_all_update:
  "P v \<Longrightarrow> list_all P (map snd al) \<Longrightarrow> list_all P (map snd (AList.update k v al))"
  by (induction al) auto

lemma list_all_delete:
  "list_all P (map snd al) \<Longrightarrow> list_all P (map snd (AList.delete k al))"
  by (induction al) auto

lemma list_all_lookup:
  "list_all P (map snd al) \<Longrightarrow> map_of al k = Some v \<Longrightarrow> P v"
  by (induction al) (auto split: if_splits)

lemma valid_statusD: "valid_status v \<Longrightarrow> \<exists>s. v = Some (JStr s) \<and> s \<in> set statuses"
  by (cases v rule: valid_status.cases) auto

lemma persisted_ok_update_status:
  assumes "persisted_ok r" and "s \<in> set statuses"
  shows "persisted_ok (AList.update ''status'' (JStr s) r)"
  using assms by (simp add: persisted_ok_def update_conv')

lemma persisted_ok_created:
  assumes "if_truthy t0 = Some t" "if_truthy d0 = Some d" "if_truthy ty0 = Some ty" "if_truthy l0 = Some l"
  shows "persisted_ok [(''id'', JStr (toString n)), (''title'', t), (''description'', d), (''type'', ty),
         (''location'', l), (''imageUrl'', img),
         (''status'', JStr ''pending''), (''timestamp'', JNum ts)]"
  using assms by (simp add: persisted_ok_def if_truthy_Some toString_nonempty statuses_def)

lemma persisted_ok_samples: "list_all persisted_ok sampleReports"
  by (simp add: sampleReports_def persisted_ok_def statuses_def)

lemma updateStatus_kv:
  "kv (snd (updateStatus rid req w)) = kv w
   \<or> (\<exists>r s. map_of (kv w) (''report:'' @ rid) = Some r \<and> s \<in> set statuses
        \<and> kv (snd (updateStatus rid req w)) =
            AList.update (''report:'' @ rid) (AList.update ''status'' (JStr s) r) (kv w))"
proof (cases req)
  case None
  then show ?thesis by (simp add: updateStatus_def)
next
  case (Some b)
  show ?thesis
  proof (cases "valid_status (get_prop ''status'' b)")
    case False
    with Some show ?thesis
      by (cases b; cases "get_prop ''status'' b") (simp_all add: updateStatus_def)
  next
    case True
    from valid_statusD[OF this] obtain s where s: "get_prop ''status'' b = Some (JStr s)" "s \<in> set statuses"
      by blast
    show ?thesis
    proof (cases "map_of (kv w) (''report:'' @ rid)")
      case None
      with Some s True show ?thesis
        by (cases b) (simp_all add: updateStatus_def kv_get_def)
    next
      case r: (Some r)
      from updateStatus_ok[OF s r] Some s r show ?thesis
        by (auto simp: kv_set_def)
    qed
  qed
qed

lemma seedDatabase_kv:
  "kv (seedDatabase w) = kv w
   \<or> kv (seedDatabase w) = kv (fold (\<lambda>report. kv_set (sample_key report) report) sampleReports
         (w\<lparr>kv_log := kv_log w @ [KvScan ''report:'']\<rparr>))"
  by (simp add: seedDatabase_def kv_getByPrefix_def)

lemma fold_kv_set_ok:
  "list_all P rs \<Longrightarrow> list_all P (map snd (kv w)) \<Longrightarrow>
   list_all P (map snd (kv (fold (\<lambda>report. kv_set (f report) report) rs w)))"
proof (induction rs arbitrary: w)
  case Nil
  then show ?case by simp
next
  case (Cons r rs)
  from Cons.prems have "list_all P (map snd (kv (kv_set (f r) r w)))"
    by (simp add: kv_set_def list_all_update)
  with Cons show ?case by simp
qed

text \<open>
  C6 (as amended). In every state reachable from the empty store by seeding, creating,
  updating a status, deleting, listing, reading and uploading, every persisted report
  has a non-empty string as id, a title, description, location and type that are present
  and truthy (for a string: non-empty), and a status among \<^verbatim>\<open>"pending"\<close>,
  \<^verbatim>\<open>"in-progress"\<close>, \<^verbatim>\<open>"resolved"\<close>. The type is not held to the six categories.
\<close>

theorem persisted_reports_invariant:
  assumes "reachable e w"
  shows "list_all persisted_ok (map snd (kv w))"
  using assms
proof (induction rule: reachable.induct)
  case (start wrapped)
  show ?case by (simp add: empty_world_def)
next
  case (seed w)
  from seedDatabase_kv[of w] show ?case
  proof
    assume "kv (seedDatabase w) = kv w"
    with seed.IH show ?thesis by simp
  next
    assume a: "kv (seedDatabase w) = kv (fold (\<lambda>report. kv_set (sample_key report) report) sampleReports
         (w\<lparr>kv_log := kv_log w @ [KvScan ''report:'']\<rparr>))"
    have "list_all persisted_ok (map snd (kv (w\<lparr>kv_log := kv_log w @ [KvScan ''report:'']\<rparr>)))"
      using seed.IH by simp
    from fold_kv_set_ok[OF persisted_ok_samples this] a show ?thesis by simp
  qed
next
  case (list w)
  then show ?case by (simp add: listReports_def kv_getByPrefix_def Let_def)
next
  case (get w rid)
  then show ?case by (simp add: getReport_def kv_get_def split: option.splits)
next
  case (create w req now_id now_ts)
  from createReport_cases[of req now_id now_ts w] show ?case
  proof (elim disjE exE conjE)
    fix b t d ty l
    assume f: "req = Some b" "b \<noteq> JNull" "if_truthy (get_prop ''title'' b) = Some t"
      "if_truthy (get_prop ''description'' b) = Some d"
      "if_truthy (get_prop ''type'' b) = Some ty"
      "if_truthy (get_prop ''location'' b) = Some l"
    show ?thesis
      unfolding f(1) createReport_ok[OF f(2-6)]
      using create.IH persisted_ok_created[OF f(3-6)]
      by (simp add: kv_set_def list_all_update)
  next
    assume "createReport req now_id now_ts w = (failure 500 ''Failed to create report'', w)"
    with create.IH show ?thesis by simp
  next
    assume "createReport req now_id now_ts w = (failure 400 ''Missing required fields'', w)"
    with create.IH show ?thesis by simp
  qed
next
  case (patch w hdr rid req)
  have u: "list_all persisted_ok (map snd (kv (snd (updateStatus rid req w))))"
    using updateStatus_kv[of rid req w]
  proof
    assume "kv (snd (updateStatus rid req w)) = kv w"
    with patch.IH show ?thesis by simp
  next
    assume "\<exists>r s. map_of (kv w) (''report:'' @ rid) = Some r \<and> s \<in> set statuses
        \<and> kv (snd (updateStatus rid req w)) =
            AList.update (''report:'' @ rid) (AList.update ''status'' (JStr s) r) (kv w)"
    then obtain r s where rs: "map_of (kv w) (''report:'' @ rid) = Some r" "s \<in> set statuses"
        "kv (snd (updateStatus rid req w)) =
            AList.update (''report:'' @ rid) (AList.update ''status'' (JStr s) r) (kv w)"
      by blast
    from list_all_lookup[OF patch.IH rs(1)] have "persisted_ok r" .
    from persisted_ok_update_status[OF this rs(2)] patch.IH rs(3) show ?thesis
      by (simp add: list_all_update)
  qed
  from requireAdmin_cases[of e hdr "updateStatus rid req" w] u patch.IH show ?case
    by (auto simp: patchStatusRoute_def)
next
  case (delete w hdr rid)
  have d: "list_all persisted_ok (map snd (kv (snd (deleteReport rid w))))"
    using delete.IH
    by (simp add: deleteReport_def kv_get_def kv_del_def list_all_delete split: option.splits)
  from requireAdmin_cases[of e hdr "deleteReport rid" w] d delete.IH show ?case
    by (auto simp: deleteRoute_def)
next
  case (upload w field now)
  have "kv (snd (uploadImage e field now w)) = kv w"
    by (simp add: uploadImage_def Let_def split: option.splits form_value.splits)
  with upload.IH show ?case by simp
qed

theorem persisted_reports_invariant_witness:
  "reachable example_env
     (snd (createReport (Some pothole_odd_type) 1000 1000 (seedDatabase (empty_world False))))
   \<and> list_all persisted_ok
       (map snd (kv (snd (createReport (Some pothole_odd_type) 1000 1000
                            (seedDatabase (empty_world False))))))"
proof -
  have r: "reachable example_env
     (snd (createReport (Some pothole_odd_type) 1000 1000 (seedDatabase (empty_world False))))"
    by (intro reachable.create reachable.seed reachable.start)
  from persisted_reports_invariant[OF r] r show ?thesis by simp
qed

text \<open>
  C6 as it is written also asks for a type among the six categories. The create handler
  tests the type for truthiness only, so a report of type \<^verbatim>\<open>"banana"\<close> is persisted in
  a state reachable from the empty store.
\<close>

theorem unchecked_type_counterexample:
  "reachable example_env
     (snd (createReport (Some pothole_odd_type) 1000 1000 (empty_world False)))
   \<and> kv (snd (createReport (Some pothole_odd_type) 1000 1000 (empty_world False))) =
       [(''report:1000'',
         [(''id'', JStr ''1000''), (''title'', JStr ''Pothole''),
          (''description'', JStr ''Deep hole''), (''type'', JStr ''banana''),
          (''location'', JStr ''Main St''), (''imageUrl'', JNull),
          (''status'', JStr ''pending''), (''timestamp'', JNum 1000)])]
   \<and> \<not> list_all spec_valid
         (map snd (kv (snd (createReport (Some pothole_odd_type) 1000 1000 (empty_world False)))))"
proof -
  have r: "reachable example_env
     (snd (createReport (Some pothole_odd_type) 1000 1000 (empty_world False)))"
    by (intro reachable.create reachable.start)
  have k: "kv (snd (createReport (Some pothole_odd_type) 1000 1000 (empty_world False))) =
       [(''report:1000'',
         [(''id'', JStr ''1000''), (''title'', JStr ''Pothole''),
          (''description'', JStr ''Deep hole''), (''type'', JStr ''banana''),
          (''location'', JStr ''Main St''), (''imageUrl'', JNull),
          (''status'', JStr ''pending''), (''timestamp'', JNum 1000)])]"
    by (simp add: pothole_odd_type_def createReport_def kv_set_def empty_world_def or_null_def
        toString_1000 Let_def)
  have "\<not> list_all spec_valid
         (map snd (kv (snd (createReport (Some pothole_odd_type) 1000 1000 (empty_world False)))))"
    unfolding k by (simp add: spec_valid_def types_def)
  with r k show ?thesis by blast
qed

end
